theory Spec2Isabelle
  imports Complex_Main
begin

section \<open>Values and keys\<close>

text \<open>
  The source is \<^verbatim>\<open>ext/webstorage/02_indexeddb.js\<close>. A JavaScript number that is not
  NaN is a real number (every finite double is one; \<open>-0\<close> and \<open>+0\<close> compare equal under
  \<^verbatim>\<open><\<close> and \<^verbatim>\<open>>\<close>) or one of the two infinities. NaN never reaches a key:
  \<^verbatim>\<open>valueToKey\<close> rejects it.
\<close>

datatype jsnum = NegInf | Fin real | PosInf

text \<open>The relational operator \<^verbatim>\<open><\<close> of JavaScript on two such numbers.\<close>

fun num_lt :: "jsnum \<Rightarrow> jsnum \<Rightarrow> bool" where
  "num_lt NegInf NegInf = False"
| "num_lt NegInf (Fin y) = True"
| "num_lt NegInf PosInf = True"
| "num_lt (Fin x) NegInf = False"
| "num_lt (Fin x) (Fin y) = (x < y)"
| "num_lt (Fin x) PosInf = True"
| "num_lt PosInf b = False"

text \<open>
  A string is its sequence of UTF-16 code units; \<^verbatim>\<open><\<close> on two strings compares
  them code unit by code unit, a proper prefix being smaller.
\<close>

type_synonym jsstring = "nat list"

fun str_lt :: "jsstring \<Rightarrow> jsstring \<Rightarrow> bool" where
  "str_lt [] [] = False"
| "str_lt [] (y # ys) = True"
| "str_lt (x # xs) [] = False"
| "str_lt (x # xs) (y # ys) = (if x < y then True else if y < x then False else str_lt xs ys)"

text \<open>
  A binary key holds \<^verbatim>\<open>value.slice()\<close> of the buffer source it was made from: an
  \<^verbatim>\<open>ArrayBuffer\<close> or a typed array (here \<^verbatim>\<open>Uint8Array\<close>), with its bytes.
  \<^verbatim>\<open>compareTwoKeys\<close> applies \<^verbatim>\<open><\<close> to two such objects. JavaScript turns each
  into a primitive first: \<^verbatim>\<open>valueOf\<close> returns the object, so \<^verbatim>\<open>toString\<close> decides.
  An \<^verbatim>\<open>ArrayBuffer\<close> prints as \<^verbatim>\<open>[object ArrayBuffer]\<close>, a typed array as its elements
  in decimal joined by commas; the two strings are then compared as strings.
\<close>

datatype buffer = ArrayBuffer "nat list" | Uint8Array "nat list"

definition digit :: "nat \<Rightarrow> nat" where
  "digit d = 48 + d"

definition byte_toString :: "nat \<Rightarrow> jsstring" where
  "byte_toString b =
     (if b < 10 then [digit b]
      else if b < 100 then [digit (b div 10), digit (b mod 10)]
      else [digit (b div 100), digit (b div 10 mod 10), digit (b mod 10)])"

fun join_comma :: "jsstring list \<Rightarrow> jsstring" where
  "join_comma [] = []"
| "join_comma [s] = s"
| "join_comma (s # t # ts) = s @ [44] @ join_comma (t # ts)"

definition object_ArrayBuffer :: jsstring where
  "object_ArrayBuffer =
     [91, 111, 98, 106, 101, 99, 116, 32, 65, 114, 114, 97, 121, 66, 117, 102, 102, 101, 114, 93]"

fun buffer_toString :: "buffer \<Rightarrow> jsstring" where
  "buffer_toString (ArrayBuffer bs) = object_ArrayBuffer"
| "buffer_toString (Uint8Array bs) = join_comma (map byte_toString bs)"

definition buffer_lt :: "buffer \<Rightarrow> buffer \<Rightarrow> bool" where
  "buffer_lt a b = str_lt (buffer_toString a) (buffer_toString b)"

text \<open>
  A key is the object \<^verbatim>\<open>{type, value}\<close> that \<^verbatim>\<open>valueToKey\<close> builds. A date key
  holds the \<^verbatim>\<open>Date\<close> itself, which \<^verbatim>\<open><\<close> and \<^verbatim>\<open>>\<close> read through its time value, an
  integer number of milliseconds.
\<close>

datatype key =
    Key_number jsnum
  | Key_date int
  | Key_string jsstring
  | Key_binary buffer
  | Key_array "key list"

datatype ktype = T_number | T_date | T_string | T_binary | T_array

fun key_type :: "key \<Rightarrow> ktype" where
  "key_type (Key_number v) = T_number"
| "key_type (Key_date v) = T_date"
| "key_type (Key_string v) = T_string"
| "key_type (Key_binary v) = T_binary"
| "key_type (Key_array v) = T_array"

subsection \<open>compareTwoKeys\<close>

text \<open>
  The branch \<^verbatim>\<open>if (ta !== tb)\<close> of \<^verbatim>\<open>compareTwoKeys\<close>. The first argument is a key
  at every call site; the second is the \<^verbatim>\<open>type\<close> property read from \<^verbatim>\<open>b\<close>, which is
  \<^verbatim>\<open>undefined\<close> (\<open>None\<close>) when \<^verbatim>\<open>b\<close> is not a key object. With \<open>ta\<close> one of the five
  types the last \<^verbatim>\<open>else\<close> (the one with the assertion) is never reached.
\<close>

definition cross_type :: "ktype \<Rightarrow> ktype option \<Rightarrow> int" where
  "cross_type ta tb =
     (if ta = T_array then 1
      else if tb = Some T_array then - 1
      else if ta = T_binary then 1
      else if tb = Some T_binary then - 1
      else if ta = T_string then 1
      else if tb = Some T_string then - 1
      else if ta = T_number then 1
      else if tb = Some T_number then - 1
      else if ta = T_date then 1
      else - 1)"

text \<open>
  \<^verbatim>\<open>compareTwoKeys(a, b)\<close> on two keys. Keys of the same type go through the
  \<^verbatim>\<open>switch\<close>; the array case is the loop over the common prefix followed by the
  comparison of the lengths.
\<close>

fun compareTwoKeys :: "key \<Rightarrow> key \<Rightarrow> int"
  and compare_arrays :: "key list \<Rightarrow> key list \<Rightarrow> int" where
  "compareTwoKeys (Key_number va) (Key_number vb) =
     (if num_lt vb va then 1 else if num_lt va vb then - 1 else 0)"
| "compareTwoKeys (Key_date va) (Key_date vb) =
     (if va > vb then 1 else if va < vb then - 1 else 0)"
| "compareTwoKeys (Key_string va) (Key_string vb) =
     (if str_lt va vb then - 1 else if str_lt vb va then 1 else 0)"
| "compareTwoKeys (Key_binary va) (Key_binary vb) =
     (if buffer_lt va vb then - 1 else if buffer_lt vb va then - 1 else 0)"
| "compareTwoKeys (Key_array va) (Key_array vb) = compare_arrays va vb"
| "compareTwoKeys a b = cross_type (key_type a) (Some (key_type b))"
| "compare_arrays [] [] = 0"
| "compare_arrays [] (y # ys) = - 1"
| "compare_arrays (x # xs) [] = 1"
| "compare_arrays (x # xs) (y # ys) =
     (let c = compareTwoKeys x y in if c \<noteq> 0 then c else compare_arrays xs ys)"

text \<open>The exceptions of the source, by name: the \<^verbatim>\<open>DOMException\<close>s it creates, the
  \<^verbatim>\<open>TypeError\<close> of JavaScript, the failure of \<^verbatim>\<open>assert\<close>, and whatever an op of the
  storage backend throws.\<close>

datatype js_error =
    AbortError | ConstraintError | DataError | InvalidStateError | ReadOnlyError
  | TransactionInactiveError | TypeError | AssertionError | BackendError nat

subsection \<open>valueToKey and valueToMultiEntryKey\<close>

text \<open>
  The values an application passes in. An array carries the identity of its object (a
  number), which is what the \<^verbatim>\<open>seen\<close> set of \<^verbatim>\<open>valueToKey\<close> holds; \<open>V_other\<close> is any
  value that is none of the others and that \<^verbatim>\<open>webidl.converters.BufferSource\<close> refuses
  (a boolean, a plain object, a cursor, a \<^verbatim>\<open>DataView\<close>, whose missing \<^verbatim>\<open>slice\<close> throws
  inside the \<^verbatim>\<open>try\<close>); \<^verbatim>\<open>undefined\<close> and \<^verbatim>\<open>null\<close> are refused in the same way.
\<close>

datatype jsval =
    V_undefined
  | V_number jsnum
  | V_NaN
  | V_date int
  | V_invalid_date
  | V_string jsstring
  | V_array nat "jsval list"
  | V_buffer buffer
  | V_null
  | V_other

text \<open>
  \<^verbatim>\<open>valueToKey(input, seen)\<close> returns the key, or \<^verbatim>\<open>null\<close> (\<open>None\<close>), and the set
  \<^verbatim>\<open>seen\<close> as the call leaves it: the set is shared by the whole conversion and an
  array is never taken out of it. Only arrays are ever added, so the first test can only
  succeed for an array.
\<close>

fun valueToKey :: "jsval \<Rightarrow> nat list \<Rightarrow> key option \<times> nat list"
  and valueToKey_entries :: "jsval list \<Rightarrow> nat list \<Rightarrow> key list option \<times> nat list" where
  "valueToKey (V_number n) seen = (Some (Key_number n), seen)"
| "valueToKey V_NaN seen = (None, seen)"
| "valueToKey (V_date t) seen = (Some (Key_date t), seen)"
| "valueToKey V_invalid_date seen = (None, seen)"
| "valueToKey (V_string s) seen = (Some (Key_string s), seen)"
| "valueToKey (V_array i entries) seen =
     (if i \<in> set seen then (None, seen)
      else case valueToKey_entries entries (i # seen) of
             (None, seen') \<Rightarrow> (None, seen')
           | (Some keys, seen') \<Rightarrow> (Some (Key_array keys), seen'))"
| "valueToKey (V_buffer b) seen = (Some (Key_binary b), seen)"
| "valueToKey V_undefined seen = (None, seen)"
| "valueToKey V_null seen = (None, seen)"
| "valueToKey V_other seen = (None, seen)"
| "valueToKey_entries [] seen = (Some [], seen)"
| "valueToKey_entries (entry # rest) seen =
     (case valueToKey entry seen of
        (None, seen') \<Rightarrow> (None, seen')
      | (Some key, seen') \<Rightarrow>
          (case valueToKey_entries rest seen' of
             (None, seen'') \<Rightarrow> (None, seen'')
           | (Some keys, seen'') \<Rightarrow> (Some (key # keys), seen'')))"

text \<open>
  The loop of \<^verbatim>\<open>valueToMultiEntryKey\<close>. \<^verbatim>\<open>keys.find(f)\<close> returns the first item for
  which \<^verbatim>\<open>f\<close> is truthy, and \<^verbatim>\<open>compareTwoKeys(item, key)\<close> is truthy when it is not 0.
\<close>

fun multiEntry_loop :: "jsval list \<Rightarrow> nat list \<Rightarrow> key list \<Rightarrow> key list" where
  "multiEntry_loop [] seen keys = keys"
| "multiEntry_loop (entry # rest) seen keys =
     (case valueToKey entry seen of
        (None, seen') \<Rightarrow> multiEntry_loop rest seen' keys
      | (Some key, seen') \<Rightarrow>
          (if find (\<lambda>item. compareTwoKeys item key \<noteq> 0) keys = None
           then multiEntry_loop rest seen' (keys @ [key])
           else multiEntry_loop rest seen' keys))"

fun valueToMultiEntryKey :: "jsval \<Rightarrow> key option" where
  "valueToMultiEntryKey (V_array i entries) = Some (Key_array (multiEntry_loop entries [i] []))"
| "valueToMultiEntryKey input = fst (valueToKey input [])"

text \<open>
  What the multi-entry conversion is said to do with the keys of the elements: keep the
  first occurrence of each key, two keys being the same when they compare as 0.
\<close>

fun remove_duplicate_keys :: "key list \<Rightarrow> key list \<Rightarrow> key list" where
  "remove_duplicate_keys [] kept = kept"
| "remove_duplicate_keys (k # ks) kept =
     (if find (\<lambda>item. compareTwoKeys item k = 0) kept = None
      then remove_duplicate_keys ks (kept @ [k])
      else remove_duplicate_keys ks kept)"

subsection \<open>Key ranges\<close>

text \<open>
  \<^verbatim>\<open>compareTwoKeys\<close> is also called with a second argument that is not a key object
  but the value the application passed (a number, a string, a date, an array, a buffer).
  Destructuring such a value reads \<^verbatim>\<open>undefined\<close> for \<^verbatim>\<open>type\<close>, so the types differ
  and the first branch decides.
\<close>

datatype operand = Op_key key | Op_value jsval

fun compareTwoKeys_with :: "key \<Rightarrow> operand \<Rightarrow> int" where
  "compareTwoKeys_with a (Op_key b) = compareTwoKeys a b"
| "compareTwoKeys_with a (Op_value v) = cross_type (key_type a) None"

record keyRange =
  lowerBound :: "key option"
  upperBound :: "key option"
  lowerOpen :: bool
  upperOpen :: bool

definition createRange :: "key option \<Rightarrow> key option \<Rightarrow> bool \<Rightarrow> bool \<Rightarrow> keyRange" where
  "createRange lb ub lo uo = \<lparr>lowerBound = lb, upperBound = ub, lowerOpen = lo, upperOpen = uo\<rparr>"

definition keyInRange :: "keyRange \<Rightarrow> operand \<Rightarrow> bool" where
  "keyInRange rng key =
     (let lower =
            (case lowerBound rng of
               None \<Rightarrow> True
             | Some lb \<Rightarrow>
                 compareTwoKeys_with lb key = - 1 \<or>
                 (compareTwoKeys_with lb key = 0 \<and> \<not> lowerOpen rng));
          upper =
            (case upperBound rng of
               None \<Rightarrow> True
             | Some ub \<Rightarrow>
                 compareTwoKeys_with ub key = 1 \<or>
                 (compareTwoKeys_with ub key = 0 \<and> \<not> upperOpen rng))
      in lower \<and> upper)"

definition IDBKeyRange_only :: "jsval \<Rightarrow> js_error + keyRange" where
  "IDBKeyRange_only v =
     (case fst (valueToKey v []) of
        None \<Rightarrow> Inl DataError
      | Some key \<Rightarrow> Inr (createRange (Some key) (Some key) False False))"

definition IDBKeyRange_lowerBound :: "jsval \<Rightarrow> bool \<Rightarrow> js_error + keyRange" where
  "IDBKeyRange_lowerBound lower opn =
     (case fst (valueToKey lower []) of
        None \<Rightarrow> Inl DataError
      | Some lowerKey \<Rightarrow> Inr (createRange (Some lowerKey) None opn True))"

definition IDBKeyRange_upperBound :: "jsval \<Rightarrow> bool \<Rightarrow> js_error + keyRange" where
  "IDBKeyRange_upperBound upper opn =
     (case fst (valueToKey upper []) of
        None \<Rightarrow> Inl DataError
      | Some upperKey \<Rightarrow> Inr (createRange None (Some upperKey) True opn))"

definition IDBKeyRange_bound :: "jsval \<Rightarrow> jsval \<Rightarrow> bool \<Rightarrow> bool \<Rightarrow> js_error + keyRange" where
  "IDBKeyRange_bound lower upper lo uo =
     (case fst (valueToKey lower []) of
        None \<Rightarrow> Inl DataError
      | Some lowerKey \<Rightarrow>
          (case fst (valueToKey upper []) of
             None \<Rightarrow> Inl DataError
           | Some upperKey \<Rightarrow>
               if compareTwoKeys lowerKey upperKey = 1 then Inl DataError
               else Inr (createRange (Some lowerKey) (Some upperKey) lo uo)))"

text \<open>
  \<^verbatim>\<open>IDBKeyRange.includes(key)\<close> converts \<^verbatim>\<open>key\<close> into \<^verbatim>\<open>keyVal\<close>, tests it against
  \<^verbatim>\<open>null\<close>, and then calls \<^verbatim>\<open>keyInRange(this, key)\<close> with the value it was given.
\<close>

definition IDBKeyRange_includes :: "keyRange \<Rightarrow> jsval \<Rightarrow> js_error + bool" where
  "IDBKeyRange_includes this key =
     (case fst (valueToKey key []) of
        None \<Rightarrow> Inl DataError
      | Some keyVal \<Rightarrow> Inr (keyInRange this (Op_value key)))"

section \<open>Key generator\<close>

text \<open>
  \<^verbatim>\<open>Store.keyGenerator\<close>. Its \<^verbatim>\<open>current\<close> is a JavaScript number that only ever
  holds an integer between 1 and \<open>2^53 = 9007199254740992\<close>. Adding 1 to an integer
  double of magnitude at most \<open>2^53\<close> is exact, except that \<open>2^53 + 1\<close> is not a double
  and rounds (ties to even) back to \<open>2^53\<close>.
\<close>

record keyGenerator =
  current :: int

definition js_add1 :: "int \<Rightarrow> int" where
  "js_add1 x = (if x = 9007199254740992 then 9007199254740992 else x + 1)"

definition generateKey :: "keyGenerator \<Rightarrow> js_error + key \<times> keyGenerator" where
  "generateKey g =
     (if current g > 9007199254740992 then Inl ConstraintError
      else Inr (Key_number (Fin (real_of_int (current g))), g\<lparr>current := js_add1 (current g)\<rparr>))"

text \<open>
  \<^verbatim>\<open>MathFloor(MathMin(key.value, 9007199254740992))\<close>: an integer, or \<open>-Infinity\<close>
  (\<open>None\<close>), which is below every \<^verbatim>\<open>current\<close>.
\<close>

fun floor_min :: "jsnum \<Rightarrow> int option" where
  "floor_min NegInf = None"
| "floor_min (Fin x) = Some \<lfloor>min x 9007199254740992\<rfloor>"
| "floor_min PosInf = Some 9007199254740992"

fun possiblyUpdate :: "keyGenerator \<Rightarrow> key \<Rightarrow> keyGenerator" where
  "possiblyUpdate g (Key_number v) =
     (case floor_min v of
        None \<Rightarrow> g
      | Some value \<Rightarrow> if value \<ge> current g then g\<lparr>current := js_add1 value\<rparr> else g)"
| "possiblyUpdate g k = g"

text \<open>A sequence of calls on one generator, with what each \<^verbatim>\<open>generateKey\<close> returned.\<close>

datatype generator_call = GenerateKey | PossiblyUpdate key

fun run_calls :: "generator_call list \<Rightarrow> keyGenerator \<Rightarrow> (js_error + key) list \<times> keyGenerator" where
  "run_calls [] g = ([], g)"
| "run_calls (GenerateKey # cs) g =
     (case generateKey g of
        Inl e \<Rightarrow> (case run_calls cs g of (rs, g') \<Rightarrow> (Inl e # rs, g'))
      | Inr (k, g1) \<Rightarrow> (case run_calls cs g1 of (rs, g') \<Rightarrow> (Inr k # rs, g')))"
| "run_calls (PossiblyUpdate k # cs) g = run_calls cs (possiblyUpdate g k)"

section \<open>Requests and transactions\<close>

datatype tx_state = Active | Inactive | Committing | Finished

datatype tx_mode = Readonly | Readwrite | Versionchange

text \<open>
  An \<^verbatim>\<open>IDBRequest\<close>. \<open>r_processed\<close> says that \<^verbatim>\<open>[[processedDeferred]]\<close> is resolved;
  \<open>r_transaction\<close> says that \<^verbatim>\<open>[[transaction]]\<close> refers to the transaction (there is one
  transaction in this model) rather than being \<^verbatim>\<open>null\<close>. An \<^verbatim>\<open>[[error]]\<close> of \<^verbatim>\<open>null\<close> or
  \<^verbatim>\<open>undefined\<close> is \<open>None\<close>.
\<close>

record request =
  r_done :: bool
  r_result :: jsval
  r_error :: "js_error option"
  r_processed :: bool
  r_transaction :: bool

text \<open>
  Modelled from the spec: \<^verbatim>\<open>webidl.illegalConstructor\<close>, which the constructor of
  \<^verbatim>\<open>IDBRequest\<close> calls, is not part of the source file. The spec has a request created for
  each operation, so \<^verbatim>\<open>new IDBRequest()\<close> is taken to give a request with the field
  initialisers of the class: not done, no error, a fresh unresolved signal and
  \<^verbatim>\<open>[[transaction]] = null\<close>. \<^verbatim>\<open>asynchronouslyExecuteRequest\<close> then sets
  \<^verbatim>\<open>[[source]]\<close> only.
\<close>

definition new_request :: request where
  "new_request =
     \<lparr>r_done = False, r_result = V_undefined, r_error = None, r_processed = False,
      r_transaction = False\<rparr>"

text \<open>
  What can be observed of a transaction, in the order it happens: the events dispatched
  on a request or on the transaction, the ops of the storage backend, and an exception
  that leaves an \<^verbatim>\<open>async\<close> function (it rejects a promise nobody holds).
\<close>

datatype notification =
    Success_event nat
  | Error_event nat
  | Abort_event
  | Complete_event
  | Op_transaction_abort
  | Op_transaction_commit
  | Unhandled_rejection js_error

text \<open>
  An \<^verbatim>\<open>IDBTransaction\<close> with the requests it refers to: \<open>requestList\<close> holds
  identities, \<open>requests\<close> is the heap of request objects. \<open>upgradeTransaction\<close> says that
  \<^verbatim>\<open>connection[[upgradeTransaction]]\<close> is this transaction.
\<close>

record transaction =
  t_state :: tx_state
  t_mode :: tx_mode
  t_error :: "js_error option"
  requestList :: "nat list"
  requests :: "nat \<Rightarrow> request"
  upgradeTransaction :: bool
  trace :: "notification list"

definition update_request :: "nat \<Rightarrow> (request \<Rightarrow> request) \<Rightarrow> transaction \<Rightarrow> transaction" where
  "update_request rq f t = t\<lparr>requests := (requests t)(rq := f (requests t rq))\<rparr>"

definition notify :: "notification \<Rightarrow> transaction \<Rightarrow> transaction" where
  "notify ev t = t\<lparr>trace := trace t @ [ev]\<rparr>"

subsection \<open>abortTransaction and commitTransaction\<close>

text \<open>
  The loop of \<^verbatim>\<open>abortTransaction\<close> over the request list. The transaction is already
  finished when the error events are dispatched, and every method a listener could call
  on it then throws before changing anything, so a dispatch only shows in the trace.
\<close>

fun abort_requests :: "nat list \<Rightarrow> transaction \<Rightarrow> transaction" where
  "abort_requests [] t = t"
| "abort_requests (rq # rest) t =
     abort_requests rest
       (notify (Error_event rq)
          (update_request rq
             (\<lambda>r. r\<lparr>r_processed := True, r_done := True, r_result := V_undefined,
                     r_error := Some AbortError\<rparr>) t))"

definition abortTransaction :: "transaction \<Rightarrow> js_error option \<Rightarrow> transaction" where
  "abortTransaction transaction err =
     (let t1 = notify Op_transaction_abort transaction;
          t2 = t1\<lparr>t_state := Finished\<rparr>;
          t3 = (case err of None \<Rightarrow> t2 | Some e \<Rightarrow> t2\<lparr>t_error := Some e\<rparr>);
          t4 = abort_requests (requestList t3) t3;
          t5 = (if t_mode t4 = Versionchange then t4\<lparr>upgradeTransaction := False\<rparr> else t4)
      in notify Abort_event t5)"

text \<open>\<^verbatim>\<open>commitTransaction\<close> up to the call of its \<^verbatim>\<open>async\<close> function.\<close>

definition commitTransaction :: "transaction \<Rightarrow> transaction" where
  "commitTransaction transaction = transaction\<lparr>t_state := Committing\<rparr>"

text \<open>
  The \<^verbatim>\<open>async\<close> function of \<^verbatim>\<open>commitTransaction\<close>. Its loop awaits the signal of
  every request of the list, in list order: it is waiting at the first request of the list
  whose signal is unresolved (\<open>Awaiting\<close>), and goes on when there is none. Then it calls the
  backend's commit op, which returns (\<open>None\<close>) or throws (\<open>Some e\<close>). Nothing in the function
  catches: an exception of the op ends it there. When the op returns and the transaction
  is still committing, the transaction finishes and the complete event is dispatched; for
  the mode \<^verbatim>\<open>versionchange\<close> the last statement then writes to
  \<^verbatim>\<open>transaction[[request]][[transaction]]\<close>, and since nothing assigns
  \<^verbatim>\<open>transaction[[request]]\<close> the write throws a \<^verbatim>\<open>TypeError\<close>, which leaves the function.
  With an empty request list there is no \<^verbatim>\<open>await\<close>, and the function runs to its end
  inside \<^verbatim>\<open>commitTransaction\<close>.
\<close>

datatype commit_progress = Awaiting nat | Completed transaction

definition commitTransaction_async :: "js_error option \<Rightarrow> transaction \<Rightarrow> commit_progress" where
  "commitTransaction_async op_commit transaction =
     (case find (\<lambda>rq. \<not> r_processed (requests transaction rq)) (requestList transaction) of
        Some rq \<Rightarrow> Awaiting rq
      | None \<Rightarrow>
          let t1 = notify Op_transaction_commit transaction in
          case op_commit of
            Some e \<Rightarrow> Completed (notify (Unhandled_rejection e) t1)
          | None \<Rightarrow>
              if t_state t1 \<noteq> Committing then Completed t1
              else
                let t2 = (if t_mode t1 = Versionchange then t1\<lparr>upgradeTransaction := False\<rparr>
                          else t1);
                    t3 = notify Complete_event (t2\<lparr>t_state := Finished\<rparr>)
                in if t_mode t3 = Versionchange
                   then Completed (notify (Unhandled_rejection TypeError) t3)
                   else Completed t3)"

definition IDBTransaction_commit :: "transaction \<Rightarrow> js_error + transaction" where
  "IDBTransaction_commit this =
     (if t_state this \<noteq> Active then Inl InvalidStateError else Inr (commitTransaction this))"

definition IDBTransaction_abort :: "transaction \<Rightarrow> js_error + transaction" where
  "IDBTransaction_abort this =
     (if t_state this = Committing \<or> t_state this = Finished then Inl InvalidStateError
      else Inr (abortTransaction (this\<lparr>t_state := Inactive\<rparr>) None))"

subsection \<open>Listeners\<close>

text \<open>
  What a listener of a success or error event does to the transaction, through the
  methods of the interface: it makes new requests (here of operations that return, so
  that their own completion comes later), it may call \<^verbatim>\<open>preventDefault\<close>, and it may end
  with \<^verbatim>\<open>abort()\<close> or \<^verbatim>\<open>commit()\<close>. A request method throws
  \<^verbatim>\<open>TransactionInactiveError\<close> unless the transaction is active, and an exception in a
  listener does not reach the code that dispatched the event.
\<close>

datatype user_call = No_call | Call_abort | Call_commit

record reaction =
  enqueues :: "nat list"
  preventDefault :: bool
  calls :: user_call

type_synonym listeners = "notification \<Rightarrow> reaction"

definition idle :: listeners where
  "idle ev = \<lparr>enqueues = [], preventDefault = False, calls = No_call\<rparr>"

text \<open>Listeners that call \<^verbatim>\<open>preventDefault\<close> on the event and do nothing else.\<close>

definition handling :: listeners where
  "handling ev = \<lparr>enqueues = [], preventDefault = True, calls = No_call\<rparr>"

fun enqueue_all :: "nat list \<Rightarrow> transaction \<Rightarrow> transaction" where
  "enqueue_all [] t = t"
| "enqueue_all (rq # rest) t =
     enqueue_all rest
       (t\<lparr>requests := (requests t)(rq := new_request), requestList := requestList t @ [rq]\<rparr>)"

definition react :: "reaction \<Rightarrow> transaction \<Rightarrow> transaction" where
  "react r t =
     (let t1 = (if t_state t = Active then enqueue_all (enqueues r) t else t)
      in case calls r of
           No_call \<Rightarrow> t1
         | Call_abort \<Rightarrow> (case IDBTransaction_abort t1 of Inl e \<Rightarrow> t1 | Inr t2 \<Rightarrow> t2)
         | Call_commit \<Rightarrow> (case IDBTransaction_commit t1 of Inl e \<Rightarrow> t1 | Inr t2 \<Rightarrow> t2))"

definition dispatchEvent :: "listeners \<Rightarrow> notification \<Rightarrow> transaction \<Rightarrow> transaction" where
  "dispatchEvent h ev t = react (h ev) (notify ev t)"

subsection \<open>asynchronouslyExecuteRequest\<close>

text \<open>
  The part of the \<^verbatim>\<open>async\<close> function of \<^verbatim>\<open>asynchronouslyExecuteRequest\<close> after the
  \<^verbatim>\<open>try\<close>, for an operation that returned. \<^verbatim>\<open>requestList.slice(i, 1)\<close> builds a new
  array and leaves the list as it is. The state is read through
  \<^verbatim>\<open>request[[transaction]]\<close>: when that is \<^verbatim>\<open>null\<close> the read throws a \<^verbatim>\<open>TypeError\<close>,
  which ends the function before the event is dispatched.
\<close>

definition fire_success :: "listeners \<Rightarrow> nat \<Rightarrow> jsval \<Rightarrow> transaction \<Rightarrow> transaction" where
  "fire_success h rq v t =
     (let t1 = update_request rq
                 (\<lambda>r. r\<lparr>r_processed := True, r_done := True, r_result := v, r_error := None\<rparr>) t
      in if r_transaction (requests t1 rq) then
           let t2 = (if t_state t1 = Inactive then t1\<lparr>t_state := Active\<rparr> else t1);
               t3 = dispatchEvent h (Success_event rq) t2
           in if t_state t3 = Active then
                let t4 = t3\<lparr>t_state := Inactive\<rparr>
                in if requestList t4 = [] then commitTransaction t4 else t4
              else t3
         else notify (Unhandled_rejection TypeError) t1)"

text \<open>The same part for an operation that threw \<open>e\<close> while the transaction was not committing.\<close>

definition fire_error :: "listeners \<Rightarrow> nat \<Rightarrow> js_error \<Rightarrow> transaction \<Rightarrow> transaction" where
  "fire_error h rq e t =
     (let t1 = update_request rq
                 (\<lambda>r. r\<lparr>r_processed := True, r_done := True, r_result := V_undefined,
                         r_error := Some e\<rparr>) t
      in if r_transaction (requests t1 rq) then
           let t2 = (if t_state t1 = Inactive then t1\<lparr>t_state := Active\<rparr> else t1);
               t3 = dispatchEvent h (Error_event rq) t2
           in if t_state t3 = Active then
                let t4 = t3\<lparr>t_state := Inactive\<rparr>
                in if preventDefault (h (Error_event rq)) then
                     (if requestList t4 = [] then commitTransaction t4 else t4)
                   else abortTransaction t4 (r_error (requests t4 rq))
              else t3
         else notify (Unhandled_rejection TypeError) t1)"

datatype outcome = Returned jsval | Threw js_error

text \<open>
  The \<^verbatim>\<open>async\<close> function from the moment the operation has settled: the \<^verbatim>\<open>catch\<close>
  and what follows it.
\<close>

definition request_settled :: "listeners \<Rightarrow> nat \<Rightarrow> outcome \<Rightarrow> transaction \<Rightarrow> transaction" where
  "request_settled h rq out t =
     (case out of
        Threw e \<Rightarrow> if t_state t = Committing then abortTransaction t (Some e) else fire_error h rq e t
      | Returned v \<Rightarrow> fire_success h rq v t)"

text \<open>
  \<^verbatim>\<open>asynchronouslyExecuteRequest(source, operation, request)\<close>. \<open>given\<close> says that the
  caller passed \<^verbatim>\<open>request\<close> (a cursor does); \<open>out\<close> is what \<^verbatim>\<open>operation()\<close> does. The
  operations are synchronous ops: the call happens at once, inside the \<^verbatim>\<open>async\<close>
  function. When it throws, the \<^verbatim>\<open>catch\<close> and the rest of the function run before
  \<^verbatim>\<open>asynchronouslyExecuteRequest\<close> returns; when it returns, the function is suspended at
  \<^verbatim>\<open>await\<close> and \<open>request_settled\<close> runs later, after the code that made the request.
\<close>

definition asynchronouslyExecuteRequest ::
  "listeners \<Rightarrow> nat \<Rightarrow> bool \<Rightarrow> outcome \<Rightarrow> transaction \<Rightarrow> js_error + transaction" where
  "asynchronouslyExecuteRequest h rq given out t =
     (if t_state t \<noteq> Active then Inl AssertionError
      else
        let t1 = (if given then t else t\<lparr>requests := (requests t)(rq := new_request)\<rparr>);
            t2 = t1\<lparr>requestList := requestList t1 @ [rq]\<rparr>
        in case out of
             Threw e \<Rightarrow> Inr (request_settled h rq out t2)
           | Returned v \<Rightarrow> Inr t2)"

text \<open>
  A transaction as \<^verbatim>\<open>IDBDatabase.transaction\<close> creates it: active, with an empty request
  list.
\<close>

definition new_transaction :: "tx_mode \<Rightarrow> transaction" where
  "new_transaction m =
     \<lparr>t_state = Active, t_mode = m, t_error = None, requestList = [],
      requests = (\<lambda>rq. new_request), upgradeTransaction = False, trace = []\<rparr>"

section \<open>Object stores: add and put\<close>

datatype keypath = Path jsstring | Paths "jsstring list"

record store =
  s_keyPath :: "keypath option"
  s_keyGenerator :: "keyGenerator option"

text \<open>
  What \<^verbatim>\<open>cursor[[effectiveObjectStore]]\<close> and the handles passed to
  \<^verbatim>\<open>assertObjectStore\<close> can be: an \<^verbatim>\<open>IDBObjectStore\<close> handle, a key object (or
  \<^verbatim>\<open>undefined\<close>), a stored value (or \<^verbatim>\<open>undefined\<close>).
\<close>

datatype js_ref = Ref_handle | Ref_key "key option" | Ref_value "jsval option"

text \<open>
  \<^verbatim>\<open>assertObjectStore(store)\<close> reads \<^verbatim>\<open>store[[store]].database[[name]]\<close> and calls the
  op \<^verbatim>\<open>op_indexeddb_object_store_exists\<close>, which returns (\<open>None\<close>) or throws. On anything
  but a handle \<^verbatim>\<open>store[[store]]\<close> is \<^verbatim>\<open>undefined\<close> and reading \<^verbatim>\<open>database\<close> from it
  throws a \<^verbatim>\<open>TypeError\<close>.
\<close>

definition assertObjectStore :: "js_error option \<Rightarrow> js_ref \<Rightarrow> js_error option" where
  "assertObjectStore exists_op store =
     (case store of Ref_handle \<Rightarrow> exists_op | Ref_key k \<Rightarrow> Some TypeError | Ref_value v \<Rightarrow> Some TypeError)"

text \<open>
  What the helpers of \<^verbatim>\<open>addOrPut\<close> that work on the cloned value give:
  \<^verbatim>\<open>extractKeyFromValueUsingKeyPath\<close> returns the failure marker, \<^verbatim>\<open>null\<close> or a key;
  \<^verbatim>\<open>checkKeyCanBeInjectedIntoValue\<close> returns a boolean; the operation
  \<^verbatim>\<open>storeRecordIntoObjectStore\<close> returns the key or throws. Serialising the value in
  \<^verbatim>\<open>clone\<close> is taken to succeed; \<^verbatim>\<open>clone\<close> then leaves the transaction active.
\<close>

datatype extraction = Extraction_failure | Extraction_null | Extraction_key key

record put_environment =
  op_exists :: "js_error option"
  extracted :: extraction
  injectable :: bool
  stored :: outcome

definition addOrPut ::
  "listeners \<Rightarrow> put_environment \<Rightarrow> nat \<Rightarrow> store \<Rightarrow> jsval \<Rightarrow> jsval \<Rightarrow> bool \<Rightarrow> transaction
     \<Rightarrow> js_error + transaction" where
  "addOrPut h env rq st val key noOverwrite t =
     (case assertObjectStore (op_exists env) Ref_handle of
        Some e \<Rightarrow> Inl e
      | None \<Rightarrow>
          if t_state t \<noteq> Active then Inl TransactionInactiveError
          else if t_mode t \<noteq> Readonly then Inl ReadOnlyError
          else if s_keyPath st \<noteq> None \<and> key \<noteq> V_undefined then Inl DataError
          else if s_keyPath st = None \<and> s_keyGenerator st = None \<and> key = V_undefined
            then Inl DataError
          else if key \<noteq> V_undefined \<and> fst (valueToKey key []) = None then Inl DataError
          else if s_keyPath st \<noteq> None \<and> extracted env = Extraction_null then Inl DataError
          else if s_keyPath st \<noteq> None \<and> extracted env = Extraction_failure \<and>
                  s_keyGenerator st = None then Inl DataError
          else if s_keyPath st \<noteq> None \<and> extracted env = Extraction_failure \<and>
                  \<not> injectable env then Inl DataError
          else asynchronouslyExecuteRequest h rq False (stored env) t)"

definition IDBObjectStore_put ::
  "listeners \<Rightarrow> put_environment \<Rightarrow> nat \<Rightarrow> store \<Rightarrow> jsval \<Rightarrow> jsval \<Rightarrow> transaction
     \<Rightarrow> js_error + transaction" where
  "IDBObjectStore_put h env rq st val key t = addOrPut h env rq st val key False t"

definition IDBObjectStore_add ::
  "listeners \<Rightarrow> put_environment \<Rightarrow> nat \<Rightarrow> store \<Rightarrow> jsval \<Rightarrow> jsval \<Rightarrow> transaction
     \<Rightarrow> js_error + transaction" where
  "IDBObjectStore_add h env rq st val key t = addOrPut h env rq st val key True t"

section \<open>Cursors\<close>

datatype direction = Next | Nextunique | Prev | Prevunique

datatype cursor_source = Source_store | Source_index

text \<open>
  An \<^verbatim>\<open>IDBCursor\<close>; \<^verbatim>\<open>undefined\<close> is \<open>None\<close>. \<open>c_request\<close> is the identity of its request.
  A record of the backend is a key with the value stored under it (what
  \<^verbatim>\<open>core.deserialize\<close> gives for the stored bytes).
\<close>

record cursor =
  c_source :: cursor_source
  c_direction :: direction
  c_range :: keyRange
  c_keyOnly :: bool
  c_position :: "key option"
  c_objectStorePosition :: "jsval option"
  c_key :: "key option"
  c_value :: "jsval option"
  c_gotValue :: bool
  c_request :: nat

type_synonym stored_record = "key \<times> jsval"

text \<open>
  \<^verbatim>\<open>compareTwoKeys\<close> on what \<^verbatim>\<open>valueToKey\<close> returned: destructuring \<^verbatim>\<open>null\<close> throws.
\<close>

fun compareTwoKeys_nullable :: "key option \<Rightarrow> key option \<Rightarrow> js_error + int" where
  "compareTwoKeys_nullable (Some a) (Some b) = Inr (compareTwoKeys a b)"
| "compareTwoKeys_nullable a b = Inl TypeError"

text \<open>
  The shape \<^verbatim>\<open>(A === 0 && B) || A === s\<close> of the conditions on an index cursor: \<^verbatim>\<open>B\<close>,
  which may throw, is evaluated only when \<^verbatim>\<open>A\<close> is 0.
\<close>

definition tie_break :: "int \<Rightarrow> (js_error + int) \<Rightarrow> (int \<Rightarrow> bool) \<Rightarrow> int \<Rightarrow> js_error + bool" where
  "tie_break a b holds s =
     (if a = 0 then (case b of Inl e \<Rightarrow> Inl e | Inr c \<Rightarrow> Inr (holds c \<or> a = s))
      else Inr (a = s))"

text \<open>
  The predicates of \<^verbatim>\<open>iterateCursor\<close> on a record. \<open>s\<close> is 1 for \<^verbatim>\<open>next\<close> and
  \<^verbatim>\<open>nextunique\<close>, -1 for \<^verbatim>\<open>prev\<close> and \<^verbatim>\<open>prevunique\<close>: the source writes the same
  conditions with the signs exchanged. \<open>position\<close> is the local variable of
  \<^verbatim>\<open>iterateCursor\<close>; the object store position is read from the cursor.
\<close>

definition condition_a :: "int \<Rightarrow> operand option \<Rightarrow> key \<Rightarrow> bool" where
  "condition_a s key recordKey =
     (case key of None \<Rightarrow> True | Some k \<Rightarrow> compareTwoKeys_with recordKey k \<noteq> - s)"

definition condition_b ::
  "int \<Rightarrow> operand option \<Rightarrow> key option \<Rightarrow> stored_record \<Rightarrow> js_error + bool" where
  "condition_b s key primaryKey r =
     (case primaryKey of
        None \<Rightarrow> Inr True
      | Some pk \<Rightarrow>
          (case key of
             None \<Rightarrow> Inl TypeError
           | Some k \<Rightarrow>
               tie_break (compareTwoKeys_with (fst r) k)
                 (compareTwoKeys_nullable (fst (valueToKey (snd r) [])) (Some pk))
                 (\<lambda>c. c \<noteq> - s) s))"

definition condition_c :: "int \<Rightarrow> cursor \<Rightarrow> key option \<Rightarrow> stored_record \<Rightarrow> js_error + bool" where
  "condition_c s cursor position r =
     (case position of
        None \<Rightarrow> Inr True
      | Some p \<Rightarrow>
          if c_source cursor = Source_store then Inr (compareTwoKeys (fst r) p = s)
          else
            tie_break (compareTwoKeys (fst r) p)
              (compareTwoKeys_nullable (fst (valueToKey (snd r) []))
                 (case c_objectStorePosition cursor of
                    None \<Rightarrow> None
                  | Some v \<Rightarrow> fst (valueToKey v [])))
              (\<lambda>c. c = s) s)"

definition matches ::
  "int \<Rightarrow> cursor \<Rightarrow> operand option \<Rightarrow> key option \<Rightarrow> key option \<Rightarrow> stored_record
     \<Rightarrow> js_error + bool" where
  "matches s cursor key primaryKey position r =
     (case condition_b s key primaryKey r of
        Inl e \<Rightarrow> Inl e
      | Inr b \<Rightarrow>
          (case condition_c s cursor position r of
             Inl e \<Rightarrow> Inl e
           | Inr c \<Rightarrow>
               Inr (condition_a s key (fst r) \<and> b \<and> c \<and>
                    keyInRange (c_range cursor) (Op_key (fst r)))))"

definition matches_unique ::
  "int \<Rightarrow> cursor \<Rightarrow> operand option \<Rightarrow> key option \<Rightarrow> stored_record \<Rightarrow> js_error + bool" where
  "matches_unique s cursor key position r =
     Inr (condition_a s key (fst r) \<and>
          (case position of None \<Rightarrow> True | Some p \<Rightarrow> compareTwoKeys (fst r) p = s) \<and>
          keyInRange (c_range cursor) (Op_key (fst r)))"

text \<open>\<^verbatim>\<open>records.find\<close> with a predicate that may throw.\<close>

fun find_record :: "('a \<Rightarrow> js_error + bool) \<Rightarrow> 'a list \<Rightarrow> js_error + 'a option" where
  "find_record p [] = Inr None"
| "find_record p (x # xs) =
     (case p x of
        Inl e \<Rightarrow> Inl e
      | Inr ok \<Rightarrow> if ok then Inr (Some x) else find_record p xs)"

text \<open>
  One pass through the \<^verbatim>\<open>switch\<close> of \<^verbatim>\<open>iterateCursor\<close>: the new value of
  \<^verbatim>\<open>foundRecord\<close>, given the one of the pass before. \<^verbatim>\<open>next\<close> and \<^verbatim>\<open>nextunique\<close>
  assign the result of \<^verbatim>\<open>find\<close>; \<^verbatim>\<open>prev\<close> and \<^verbatim>\<open>prevunique\<close> walk the records from
  the last one and assign only when a record matches.
\<close>

definition select_record ::
  "cursor \<Rightarrow> stored_record list \<Rightarrow> operand option \<Rightarrow> key option \<Rightarrow> key option
     \<Rightarrow> stored_record option \<Rightarrow> js_error + stored_record option" where
  "select_record cursor records key primaryKey position foundRecord =
     (case c_direction cursor of
        Next \<Rightarrow> find_record (matches 1 cursor key primaryKey position) records
      | Nextunique \<Rightarrow> find_record (matches_unique 1 cursor key position) records
      | Prev \<Rightarrow>
          (case find_record (matches (- 1) cursor key primaryKey position) (rev records) of
             Inl e \<Rightarrow> Inl e
           | Inr None \<Rightarrow> Inr foundRecord
           | Inr (Some r) \<Rightarrow> Inr (Some r))
      | Prevunique \<Rightarrow>
          (case find_record (matches_unique (- 1) cursor key position) (rev records) of
             Inl e \<Rightarrow> Inl e
           | Inr None \<Rightarrow> Inr foundRecord
           | Inr (Some tempRecord) \<Rightarrow>
               Inr (find (\<lambda>r. compareTwoKeys (fst r) (fst tempRecord) = 0) records)))"

text \<open>
  The loop \<^verbatim>\<open>for (; count > 0; count--)\<close>: \<open>None\<close> when a pass finds no record (the
  function returns \<^verbatim>\<open>null\<close> from inside the loop), else the position, the object store
  position and the record found after the last pass.
\<close>

fun iterate_loop ::
  "nat \<Rightarrow> cursor \<Rightarrow> stored_record list \<Rightarrow> operand option \<Rightarrow> key option \<Rightarrow> key option
     \<Rightarrow> jsval option \<Rightarrow> stored_record option
     \<Rightarrow> js_error + (key option \<times> jsval option \<times> stored_record option) option" where
  "iterate_loop 0 cursor records key primaryKey position objectStorePosition foundRecord =
     Inr (Some (position, objectStorePosition, foundRecord))"
| "iterate_loop (Suc n) cursor records key primaryKey position objectStorePosition foundRecord =
     (case select_record cursor records key primaryKey position foundRecord of
        Inl e \<Rightarrow> Inl e
      | Inr None \<Rightarrow> Inr None
      | Inr (Some r) \<Rightarrow>
          iterate_loop n cursor records key primaryKey (Some (fst r))
            (if c_source cursor = Source_index then Some (snd r) else objectStorePosition)
            (Some r))"

text \<open>
  \<^verbatim>\<open>iterateCursor(cursor, key, primaryKey, count)\<close> on the records the backend returns.
  The result says whether the cursor (\<open>True\<close>) or \<^verbatim>\<open>null\<close> (\<open>False\<close>) is returned, with the
  cursor as the call leaves it.
\<close>

definition iterateCursor ::
  "stored_record list \<Rightarrow> cursor \<Rightarrow> operand option \<Rightarrow> key option \<Rightarrow> nat
     \<Rightarrow> js_error + bool \<times> cursor" where
  "iterateCursor records cursor key primaryKey count =
     (if primaryKey \<noteq> None \<and>
         (if c_source cursor = Source_index
          then c_direction cursor \<noteq> Next \<and> c_direction cursor \<noteq> Prev else True)
      then Inl AssertionError
      else
        case iterate_loop count cursor records key primaryKey (c_position cursor)
               (c_objectStorePosition cursor) None of
          Inl e \<Rightarrow> Inl e
        | Inr None \<Rightarrow>
            Inr (False,
                 cursor\<lparr>c_objectStorePosition :=
                          (if c_source cursor = Source_index then None
                           else c_objectStorePosition cursor),
                        c_value := (if c_keyOnly cursor then c_value cursor else None)\<rparr>)
        | Inr (Some (position, objectStorePosition, foundRecord)) \<Rightarrow>
            (case foundRecord of
               None \<Rightarrow> Inl TypeError
             | Some r \<Rightarrow>
                 Inr (True,
                      cursor\<lparr>c_position := position,
                             c_objectStorePosition :=
                               (if c_source cursor = Source_index then objectStorePosition
                                else c_objectStorePosition cursor),
                             c_key := Some (fst r),
                             c_value := (if c_keyOnly cursor then c_value cursor else Some (snd r)),
                             c_gotValue := True\<rparr>)))"

subsection \<open>IDBCursor.advance\<close>

definition effectiveObjectStore :: "cursor \<Rightarrow> js_ref" where
  "effectiveObjectStore cursor =
     (if c_source cursor = Source_store then Ref_key (c_position cursor)
      else Ref_value (c_objectStorePosition cursor))"

text \<open>
  \<^verbatim>\<open>assertCursor\<close>; \<^verbatim>\<open>assertIndex\<close> starts with \<^verbatim>\<open>assertObjectStore\<close> on the handle of
  the index's store and then calls one more op, here given the same outcome.
\<close>

definition assertCursor :: "js_error option \<Rightarrow> cursor \<Rightarrow> js_error option" where
  "assertCursor exists_op cursor =
     (case assertObjectStore exists_op (effectiveObjectStore cursor) of
        Some e \<Rightarrow> Some e
      | None \<Rightarrow> assertObjectStore exists_op Ref_handle)"

text \<open>
  The operation that \<^verbatim>\<open>advance\<close> hands to \<^verbatim>\<open>asynchronouslyExecuteRequest\<close>:
  \<^verbatim>\<open>() => iterateCursor(this, count)\<close>. The number lands in the parameter \<^verbatim>\<open>key\<close>;
  \<^verbatim>\<open>primaryKey\<close> is \<^verbatim>\<open>undefined\<close> and \<^verbatim>\<open>count\<close> takes its default, 1.
\<close>

definition advance_operation :: "stored_record list \<Rightarrow> nat \<Rightarrow> cursor \<Rightarrow> js_error + bool \<times> cursor" where
  "advance_operation records count this =
     iterateCursor records this (Some (Op_value (V_number (Fin (real count))))) None 1"

text \<open>
  \<^verbatim>\<open>IDBCursor.advance(count)\<close>, with \<open>count\<close> already an \<^verbatim>\<open>unsigned long\<close>. The result is
  the cursor and the transaction as the call leaves them. The request of the cursor gets a
  new signal and is pending again, then the operation runs as described for
  \<open>asynchronouslyExecuteRequest\<close>; what it returns is the cursor (here \<open>V_other\<close>) or
  \<^verbatim>\<open>null\<close>.
\<close>

definition IDBCursor_advance ::
  "listeners \<Rightarrow> js_error option \<Rightarrow> stored_record list \<Rightarrow> nat \<Rightarrow> cursor \<Rightarrow> transaction
     \<Rightarrow> js_error + cursor \<times> transaction" where
  "IDBCursor_advance h exists_op records count this t =
     (if count = 0 then Inl TypeError
      else if t_state t \<noteq> Active then Inl TransactionInactiveError
      else
        case assertCursor exists_op this of
          Some e \<Rightarrow> Inl e
        | None \<Rightarrow>
            if c_gotValue this then
              let c1 = this\<lparr>c_gotValue := False\<rparr>;
                  t1 = update_request (c_request this)
                         (\<lambda>r. r\<lparr>r_processed := False, r_done := False\<rparr>) t
              in case advance_operation records count c1 of
                   Inl e \<Rightarrow>
                     (case asynchronouslyExecuteRequest h (c_request this) True (Threw e) t1 of
                        Inl a \<Rightarrow> Inl a
                      | Inr t2 \<Rightarrow> Inr (c1, t2))
                 | Inr (found, c2) \<Rightarrow>
                     (case asynchronouslyExecuteRequest h (c_request this) True
                             (Returned (if found then V_other else V_null)) t1 of
                        Inl a \<Rightarrow> Inl a
                      | Inr t2 \<Rightarrow> Inr (c2, t2))
            else Inl InvalidStateError)"

section \<open>A transaction with one pending request\<close>

text \<open>
  A read-write transaction on which one request, with identity 0, has been made, the
  operation of which has returned: the \<^verbatim>\<open>async\<close> function of the request is suspended
  at its \<^verbatim>\<open>await\<close>. With \<open>wired = False\<close> this is what \<open>asynchronouslyExecuteRequest\<close>
  leaves; \<open>wired = True\<close> is the same transaction with \<^verbatim>\<open>[[transaction]]\<close> of the request
  set, which nothing in the source does for such a request.
\<close>

definition pending_request :: "bool \<Rightarrow> transaction" where
  "pending_request wired =
     (new_transaction Readwrite)
       \<lparr>requestList := [0], requests := (\<lambda>rq. new_request\<lparr>r_transaction := wired\<rparr>)\<rparr>"

section \<open>Properties of the key generator\<close>

lemma js_add1_increasing: "x \<le> js_add1 x"
  by (simp add: js_add1_def)

lemma generateKey_current: "generateKey g = Inr (k, g') \<Longrightarrow> current g \<le> current g'"
  by (auto simp add: generateKey_def js_add1_def split: if_splits)

lemma possiblyUpdate_current: "current g \<le> current (possiblyUpdate g k)"
proof (cases k)
  case (Key_number v)
  then show ?thesis
    using js_add1_increasing by (cases "floor_min v") (auto intro: order_trans)
qed simp_all

lemma run_calls_current_nondecreasing: "current g \<le> current (snd (run_calls cs g))"
proof (induction cs arbitrary: g)
  case Nil
  then show ?case by simp
next
  case (Cons c cs)
  show ?case
  proof (cases c)
    case GenerateKey
    show ?thesis
    proof (cases "generateKey g")
      case (Inl e)
      have "snd (run_calls (c # cs) g) = snd (run_calls cs g)"
        using GenerateKey Inl by (simp split: prod.splits)
      then show ?thesis using Cons.IH [of g] by simp
    next
      case (Inr p)
      obtain k g1 where p: "p = (k, g1)" by (cases p)
      have s: "snd (run_calls (c # cs) g) = snd (run_calls cs g1)"
        using GenerateKey Inr p by (simp split: prod.splits)
      have "current g \<le> current g1" using Inr p generateKey_current by blast
      also have "current g1 \<le> current (snd (run_calls cs g1))" by (rule Cons.IH)
      finally show ?thesis using s by simp
    qed
  next
    case (PossiblyUpdate k)
    have "current g \<le> current (possiblyUpdate g k)" by (rule possiblyUpdate_current)
    also have "\<dots> \<le> current (snd (run_calls cs (possiblyUpdate g k)))" by (rule Cons.IH)
    finally show ?thesis using PossiblyUpdate by simp
  qed
qed

text \<open>
  C8. For a sequence of \<^verbatim>\<open>generateKey\<close> and \<^verbatim>\<open>possiblyUpdate\<close> calls on a generator that
  starts at 1, \<^verbatim>\<open>current\<close> never decreases (\<open>run_calls_current_nondecreasing\<close>), but the
  keys generated are not always strictly increasing: after \<^verbatim>\<open>possiblyUpdate\<close> with the key
  \<open>2^53 - 1\<close>, \<^verbatim>\<open>current\<close> is \<open>2^53\<close>, the test \<^verbatim>\<open>current > 9007199254740992\<close> fails,
  \<^verbatim>\<open>current++\<close> leaves \<open>2^53\<close> in place, and two calls of \<^verbatim>\<open>generateKey\<close> in a row
  return the same key \<open>2^53\<close>, with no \<^verbatim>\<open>ConstraintError\<close>.
\<close>

theorem generateKey_repeats_at_ceiling:
  "run_calls
     [PossiblyUpdate (Key_number (Fin 9007199254740991)), GenerateKey, GenerateKey]
     \<lparr>current = 1\<rparr> =
   ([Inr (Key_number (Fin 9007199254740992)), Inr (Key_number (Fin 9007199254740992))],
    \<lparr>current = 9007199254740992\<rparr>)"
  by (simp add: generateKey_def js_add1_def)

text \<open>
  C10. \<^verbatim>\<open>possiblyUpdate\<close> called with a key whose type is not \<^verbatim>\<open>number\<close> (a date, a
  string, a binary or an array key) returns at once: the generator, whose only state is
  \<^verbatim>\<open>current\<close>, is exactly what it was.
\<close>

theorem possiblyUpdate_non_number_unchanged:
  "key_type k \<noteq> T_number \<Longrightarrow> possiblyUpdate g k = g"
  by (cases k) simp_all

theorem possiblyUpdate_non_number_unchanged_witness:
  "key_type (Key_string [97]) \<noteq> T_number \<and>
   possiblyUpdate \<lparr>current = 5\<rparr> (Key_string [97]) = \<lparr>current = 5\<rparr>"
  using possiblyUpdate_non_number_unchanged [of "Key_string [97]" "\<lparr>current = 5\<rparr>"] by simp

section \<open>Properties of keys and key ranges\<close>

lemma compareTwoKeys_binary_never_greater:
  "compareTwoKeys (Key_binary a) (Key_binary b) = - 1 \<or>
   compareTwoKeys (Key_binary a) (Key_binary b) = 0"
  by simp

lemma compareTwoKeys_binary_both_less:
  "buffer_lt a b \<Longrightarrow>
   compareTwoKeys (Key_binary a) (Key_binary b) = - 1 \<and>
   compareTwoKeys (Key_binary b) (Key_binary a) = - 1"
  by simp

text \<open>
  C4. \<^verbatim>\<open>compareTwoKeys\<close> is not antisymmetric on binary keys: both branches of the
  \<^verbatim>\<open>binary\<close> case return -1. For the one-byte arrays \<open>[1]\<close> and \<open>[2]\<close>, comparing them
  in either order gives -1, so \<open>compare(a, b) = - compare(b, a)\<close> fails and the function is
  not a total order on binary keys.
\<close>

theorem compareTwoKeys_binary_not_antisymmetric:
  "compareTwoKeys (Key_binary (Uint8Array [1])) (Key_binary (Uint8Array [2])) = - 1 \<and>
   compareTwoKeys (Key_binary (Uint8Array [2])) (Key_binary (Uint8Array [1])) = - 1 \<and>
   compareTwoKeys (Key_binary (Uint8Array [1])) (Key_binary (Uint8Array [2])) \<noteq>
     - compareTwoKeys (Key_binary (Uint8Array [2])) (Key_binary (Uint8Array [1]))"
  by (simp add: buffer_lt_def byte_toString_def digit_def)

lemma cross_type_undefined: "cross_type ta None = 1"
  by (cases ta) (simp_all add: cross_type_def)

text \<open>
  C6. \<^verbatim>\<open>IDBKeyRange.includes\<close> does not test the key against the bounds. It hands the
  unconverted value to \<^verbatim>\<open>keyInRange\<close>, every comparison of a bound with it gives 1, and
  so, for every range and every value that converts to a key, the result is true exactly
  when the range has no lower bound.
\<close>

theorem includes_ignores_key:
  assumes "fst (valueToKey v []) = Some k"
  shows "IDBKeyRange_includes r v = Inr (lowerBound r = None)"
  using assms
  by (simp add: IDBKeyRange_includes_def keyInRange_def cross_type_undefined split: option.splits)

theorem includes_ignores_key_witness:
  "fst (valueToKey (V_number (Fin 5)) []) = Some (Key_number (Fin 5)) \<and>
   IDBKeyRange_bound (V_number (Fin 1)) (V_number (Fin 10)) False False =
     Inr (createRange (Some (Key_number (Fin 1))) (Some (Key_number (Fin 10))) False False) \<and>
   IDBKeyRange_includes
     (createRange (Some (Key_number (Fin 1))) (Some (Key_number (Fin 10))) False False)
     (V_number (Fin 5)) = Inr False \<and>
   keyInRange (createRange (Some (Key_number (Fin 1))) (Some (Key_number (Fin 10))) False False)
     (Op_key (Key_number (Fin 5)))"
  using includes_ignores_key
    [of "V_number (Fin 5)" "Key_number (Fin 5)"
        "createRange (Some (Key_number (Fin 1))) (Some (Key_number (Fin 10))) False False"]
  by (simp add: IDBKeyRange_bound_def createRange_def keyInRange_def)

text \<open>
  C7. \<^verbatim>\<open>valueToMultiEntryKey\<close> does not remove duplicates. A key is pushed when
  \<^verbatim>\<open>find\<close> meets no earlier key that differs from it: the array \<open>[1, 2, 1]\<close> gives the
  array key \<open>[1, 1]\<close>, where keeping the first occurrence of each key gives \<open>[1, 2]\<close>.
\<close>

theorem valueToMultiEntryKey_keeps_duplicates:
  "valueToMultiEntryKey (V_array 0 [V_number (Fin 1), V_number (Fin 2), V_number (Fin 1)]) =
     Some (Key_array [Key_number (Fin 1), Key_number (Fin 1)]) \<and>
   valueToKey_entries [V_number (Fin 1), V_number (Fin 2), V_number (Fin 1)] [0] =
     (Some [Key_number (Fin 1), Key_number (Fin 2), Key_number (Fin 1)], [0]) \<and>
   remove_duplicate_keys [Key_number (Fin 1), Key_number (Fin 2), Key_number (Fin 1)] [] =
     [Key_number (Fin 1), Key_number (Fin 2)]"
  by simp

section \<open>Properties of requests and transactions\<close>

lemma t_state_enqueue_all [simp]: "t_state (enqueue_all rs t) = t_state t"
  by (induction rs arbitrary: t) simp_all

lemma requestList_enqueue_all [simp]: "requestList (enqueue_all rs t) = requestList t @ rs"
  by (induction rs arbitrary: t) simp_all

lemma react_No_call:
  "calls r = No_call \<Longrightarrow> react r t = (if t_state t = Active then enqueue_all (enqueues r) t else t)"
  by (simp add: react_def)

lemma react_Finished: "t_state t = Finished \<Longrightarrow> react r t = t"
  by (cases "calls r") (simp_all add: react_def IDBTransaction_abort_def IDBTransaction_commit_def)

lemma abort_requests_state [simp]: "t_state (abort_requests l t) = t_state t"
  by (induction l arbitrary: t) (simp_all add: notify_def update_request_def)

lemma abort_requests_wiring [simp]:
  "r_transaction (requests (abort_requests l t) rq) = r_transaction (requests t rq)"
  by (induction l arbitrary: t) (simp_all add: notify_def update_request_def)

lemma abort_requests_other:
  "rq \<notin> set l \<Longrightarrow> r_error (requests (abort_requests l t) rq) = r_error (requests t rq)"
  by (induction l arbitrary: t) (simp_all add: notify_def update_request_def)

lemma abort_requests_member:
  "rq \<in> set l \<Longrightarrow> r_error (requests (abort_requests l t) rq) = Some AbortError"
proof (induction l arbitrary: t)
  case Nil
  then show ?case by simp
next
  case (Cons a l)
  show ?case
  proof (cases "rq \<in> set l")
    case True
    then show ?thesis using Cons.IH by simp
  next
    case False
    then have "rq = a" using Cons.prems by simp
    then show ?thesis
      using False by (simp add: abort_requests_other notify_def update_request_def)
  qed
qed

lemma pending_request_enqueued:
  "asynchronouslyExecuteRequest h 0 False (Returned v) (new_transaction Readwrite) =
     Inr (pending_request False)"
  by (simp add: asynchronouslyExecuteRequest_def new_transaction_def pending_request_def
      new_request_def fun_upd_idem)

text \<open>
  C1. The auto-commit never starts. When the \<^verbatim>\<open>async\<close> function of a request of the
  list runs on, after an operation that returned or after one that threw and whose error
  event had its default prevented, with listeners that call neither \<^verbatim>\<open>commit()\<close> nor
  \<^verbatim>\<open>abort()\<close>, the request is still in the request list afterwards
  (\<^verbatim>\<open>slice\<close> removes nothing), so the list is not empty, \<^verbatim>\<open>commitTransaction\<close> is not
  called, and the transaction is left active or inactive: it is neither committing nor
  finished.
\<close>

theorem request_settled_never_commits:
  assumes "rq \<in> set (requestList t)"
    and "t_state t = Active \<or> t_state t = Inactive"
    and "calls (h (Success_event rq)) = No_call"
    and "calls (h (Error_event rq)) = No_call"
    and "\<forall>e. out = Threw e \<longrightarrow> preventDefault (h (Error_event rq))"
  shows "rq \<in> set (requestList (request_settled h rq out t)) \<and>
         (t_state (request_settled h rq out t) = Active \<or>
          t_state (request_settled h rq out t) = Inactive)"
  using assms
  by (cases out)
     (auto simp add: request_settled_def fire_success_def fire_error_def update_request_def
        notify_def dispatchEvent_def react_No_call Let_def commitTransaction_def)

theorem request_settled_never_commits_witness:
  "asynchronouslyExecuteRequest idle 0 False (Returned (V_string [97])) (new_transaction Readwrite) =
     Inr (pending_request False) \<and>
   0 \<in> set (requestList (pending_request False)) \<and>
   t_state (pending_request False) = Active \<and>
   calls (idle (Success_event 0)) = No_call \<and>
   calls (idle (Error_event 0)) = No_call \<and>
   0 \<in> set (requestList
      (request_settled idle 0 (Returned (V_string [97])) (pending_request False))) \<and>
   t_state (request_settled idle 0 (Returned (V_string [97])) (pending_request False)) = Active \<and>
   asynchronouslyExecuteRequest handling 0 False (Threw (BackendError 0))
       (new_transaction Readwrite) =
     Inr (request_settled handling 0 (Threw (BackendError 0)) (pending_request False)) \<and>
   calls (handling (Success_event 0)) = No_call \<and>
   calls (handling (Error_event 0)) = No_call \<and>
   preventDefault (handling (Error_event 0)) \<and>
   0 \<in> set (requestList
      (request_settled handling 0 (Threw (BackendError 0)) (pending_request False))) \<and>
   t_state (request_settled handling 0 (Threw (BackendError 0)) (pending_request False)) = Active"
proof -
  have p: "0 \<in> set (requestList (pending_request False))"
    and a: "t_state (pending_request False) = Active \<or> t_state (pending_request False) = Inactive"
    by (simp_all add: pending_request_def new_transaction_def)
  have i: "calls (idle (Success_event 0)) = No_call" "calls (idle (Error_event 0)) = No_call"
    and r: "\<forall>e. Returned (V_string [97]) = Threw e \<longrightarrow> preventDefault (idle (Error_event 0))"
    by (simp_all add: idle_def)
  have g: "calls (handling (Success_event 0)) = No_call"
      "calls (handling (Error_event 0)) = No_call"
    and d: "\<forall>e. Threw (BackendError 0) = Threw e \<longrightarrow> preventDefault (handling (Error_event 0))"
    by (simp_all add: handling_def)
  have e: "asynchronouslyExecuteRequest handling 0 False (Threw (BackendError 0))
             (new_transaction Readwrite) =
           Inr (request_settled handling 0 (Threw (BackendError 0)) (pending_request False))"
    by (simp add: asynchronouslyExecuteRequest_def new_transaction_def pending_request_def
        new_request_def fun_upd_idem)
  show ?thesis
    using request_settled_never_commits [OF p a i r]
      request_settled_never_commits [OF p a g d]
      pending_request_enqueued [of idle "V_string [97]"] p i g e
    by (simp add: pending_request_def new_transaction_def idle_def handling_def
        request_settled_def fire_success_def fire_error_def update_request_def notify_def
        new_request_def)
qed

text \<open>
  C2. A request that is pending when \<^verbatim>\<open>abort()\<close> is called does not end with
  \<^verbatim>\<open>AbortError\<close>. \<^verbatim>\<open>abort()\<close> on an active or inactive transaction finishes it and gives
  every request of the list the error \<^verbatim>\<open>AbortError\<close>; but the \<^verbatim>\<open>async\<close> function of a
  request whose operation had returned is not stopped: when it runs on it sets the result
  to the value of the operation and the error to \<^verbatim>\<open>undefined\<close>, and, when the request
  refers to its transaction, dispatches a success event after the abort.
\<close>

theorem abort_then_settled_overwrites:
  assumes "t_state t = Active \<or> t_state t = Inactive"
    and "rq \<in> set (requestList t)"
  shows "IDBTransaction_abort t = Inr (abortTransaction (t\<lparr>t_state := Inactive\<rparr>) None) \<and>
         t_state (abortTransaction (t\<lparr>t_state := Inactive\<rparr>) None) = Finished \<and>
         r_error (requests (abortTransaction (t\<lparr>t_state := Inactive\<rparr>) None) rq) =
           Some AbortError \<and>
         r_error (requests (request_settled h rq (Returned v)
            (abortTransaction (t\<lparr>t_state := Inactive\<rparr>) None)) rq) = None \<and>
         r_result (requests (request_settled h rq (Returned v)
            (abortTransaction (t\<lparr>t_state := Inactive\<rparr>) None)) rq) = v \<and>
         last (trace (request_settled h rq (Returned v)
            (abortTransaction (t\<lparr>t_state := Inactive\<rparr>) None))) =
           (if r_transaction (requests t rq) then Success_event rq
            else Unhandled_rejection TypeError)"
proof -
  let ?t2 = "abortTransaction (t\<lparr>t_state := Inactive\<rparr>) None"
  have a: "IDBTransaction_abort t = Inr ?t2"
    using assms(1) by (auto simp add: IDBTransaction_abort_def)
  have b: "t_state ?t2 = Finished"
    by (simp add: abortTransaction_def Let_def notify_def)
  have c: "r_error (requests ?t2 rq) = Some AbortError"
    using assms(2) by (simp add: abortTransaction_def Let_def notify_def abort_requests_member)
  have w: "r_transaction (requests ?t2 rq) = r_transaction (requests t rq)"
    by (simp add: abortTransaction_def Let_def notify_def)
  have d: "r_error (requests (request_settled h rq (Returned v) ?t2) rq) = None \<and>
           r_result (requests (request_settled h rq (Returned v) ?t2) rq) = v \<and>
           last (trace (request_settled h rq (Returned v) ?t2)) =
             (if r_transaction (requests t rq) then Success_event rq
              else Unhandled_rejection TypeError)"
    using b w
    by (simp add: request_settled_def fire_success_def update_request_def Let_def
        dispatchEvent_def react_Finished notify_def)
  from a b c d show ?thesis by simp
qed

theorem abort_then_settled_overwrites_witness:
  "(t_state (pending_request False) = Active \<or> t_state (pending_request False) = Inactive) \<and>
   0 \<in> set (requestList (pending_request False)) \<and>
   r_error (requests (abortTransaction ((pending_request False)\<lparr>t_state := Inactive\<rparr>) None) 0) =
     Some AbortError \<and>
   r_error (requests (request_settled idle 0 (Returned (V_string [97]))
      (abortTransaction ((pending_request False)\<lparr>t_state := Inactive\<rparr>) None)) 0) = None \<and>
   r_result (requests (request_settled idle 0 (Returned (V_string [97]))
      (abortTransaction ((pending_request False)\<lparr>t_state := Inactive\<rparr>) None)) 0) =
     V_string [97] \<and>
   trace (request_settled idle 0 (Returned (V_string [97]))
      (abortTransaction ((pending_request True)\<lparr>t_state := Inactive\<rparr>) None)) =
     [Op_transaction_abort, Error_event 0, Abort_event, Success_event 0]"
  using abort_then_settled_overwrites [of "pending_request False" 0 idle "V_string [97]"]
  by (simp add: pending_request_def new_transaction_def abortTransaction_def notify_def
      update_request_def request_settled_def fire_success_def dispatchEvent_def react_Finished
      new_request_def)

lemma commitTransaction_async_awaits_in_order:
  "find (\<lambda>rq. \<not> r_processed (requests t rq)) (requestList t) = Some rq \<Longrightarrow>
   commitTransaction_async op_commit t = Awaiting rq"
  by (simp add: commitTransaction_async_def)

lemma request_settled_processed:
  "r_processed (requests (request_settled idle 0 (Returned v) (pending_request False)) 0)"
  by (simp add: request_settled_def fire_success_def update_request_def notify_def
      pending_request_def new_transaction_def new_request_def)

text \<open>
  C3. A failure of the backend's commit is not turned into an abort. For a committing
  transaction all of whose requests are processed, the \<^verbatim>\<open>async\<close> function of
  \<^verbatim>\<open>commitTransaction\<close> calls the commit op; when the op throws, the exception leaves the
  function and nothing else happens: the state stays committing, no error is stored, no
  request is touched and no abort event is dispatched. (When the op returns, the
  transaction finishes and the complete event is dispatched; in the mode
  \<^verbatim>\<open>versionchange\<close> a \<^verbatim>\<open>TypeError\<close> follows it.)
\<close>

theorem commit_failure_stays_committing:
  assumes "t_state t = Committing"
    and "\<forall>rq \<in> set (requestList t). r_processed (requests t rq)"
  shows "commitTransaction_async (Some e) t =
           Completed (t\<lparr>trace := trace t @ [Op_transaction_commit, Unhandled_rejection e]\<rparr>) \<and>
         (\<exists>t'. commitTransaction_async None t = Completed t' \<and> t_state t' = Finished \<and>
               trace t' =
                 trace t @ [Op_transaction_commit, Complete_event] @
                   (if t_mode t = Versionchange then [Unhandled_rejection TypeError] else []))"
proof -
  have "find (\<lambda>rq. \<not> r_processed (requests t rq)) (requestList t) = None"
    using assms(2) by (simp add: find_None_iff)
  then show ?thesis
    using assms(1) by (simp add: commitTransaction_async_def notify_def Let_def)
qed

theorem commit_failure_stays_committing_witness:
  "IDBTransaction_commit (request_settled idle 0 (Returned (V_string [97])) (pending_request False)) =
     Inr (commitTransaction
            (request_settled idle 0 (Returned (V_string [97])) (pending_request False))) \<and>
   t_state (commitTransaction
      (request_settled idle 0 (Returned (V_string [97])) (pending_request False))) = Committing \<and>
   requestList (commitTransaction
      (request_settled idle 0 (Returned (V_string [97])) (pending_request False))) = [0] \<and>
   r_processed (requests (commitTransaction
      (request_settled idle 0 (Returned (V_string [97])) (pending_request False))) 0) \<and>
   commitTransaction_async (Some (BackendError 0))
      (commitTransaction
         (request_settled idle 0 (Returned (V_string [97])) (pending_request False))) =
     Completed
       ((commitTransaction
           (request_settled idle 0 (Returned (V_string [97])) (pending_request False)))
          \<lparr>trace := [Unhandled_rejection TypeError, Op_transaction_commit,
                     Unhandled_rejection (BackendError 0)]\<rparr>) \<and>
   t_state
       ((commitTransaction
           (request_settled idle 0 (Returned (V_string [97])) (pending_request False)))
          \<lparr>trace := [Unhandled_rejection TypeError, Op_transaction_commit,
                     Unhandled_rejection (BackendError 0)]\<rparr>) = Committing \<and>
   t_error
       ((commitTransaction
           (request_settled idle 0 (Returned (V_string [97])) (pending_request False)))
          \<lparr>trace := [Unhandled_rejection TypeError, Op_transaction_commit,
                     Unhandled_rejection (BackendError 0)]\<rparr>) = None \<and>
   commitTransaction_async (Some (BackendError 0)) (commitTransaction (pending_request False)) =
     Awaiting 0"
proof -
  let ?s = "request_settled idle 0 (Returned (V_string [97])) (pending_request False)"
  have st: "t_state ?s = Active" and rl: "requestList ?s = [0]"
    and tr: "trace ?s = [Unhandled_rejection TypeError]" and er: "t_error ?s = None"
    by (simp_all add: request_settled_def fire_success_def update_request_def notify_def
        pending_request_def new_transaction_def new_request_def)
  have c: "t_state (commitTransaction ?s) = Committing"
    by (simp add: commitTransaction_def)
  have l: "requestList (commitTransaction ?s) = [0]"
    using rl by (simp add: commitTransaction_def)
  have pr: "r_processed (requests (commitTransaction ?s) 0)"
    using request_settled_processed [of "V_string [97]"] by (simp add: commitTransaction_def)
  have ap: "\<forall>rq \<in> set (requestList (commitTransaction ?s)).
              r_processed (requests (commitTransaction ?s) rq)"
    using l pr by simp
  have aw: "commitTransaction_async (Some (BackendError 0))
              (commitTransaction (pending_request False)) = Awaiting 0"
    by (rule commitTransaction_async_awaits_in_order)
       (simp add: commitTransaction_def pending_request_def new_transaction_def new_request_def)
  have ic: "IDBTransaction_commit ?s = Inr (commitTransaction ?s)"
    using st by (simp add: IDBTransaction_commit_def)
  have t': "trace (commitTransaction ?s) = [Unhandled_rejection TypeError]"
    using tr by (simp add: commitTransaction_def)
  have e': "t_error (commitTransaction ?s) = None"
    using er by (simp add: commitTransaction_def)
  show ?thesis
    using commit_failure_stays_committing [OF c ap, of "BackendError 0"] ic c l pr aw t' e'
    by simp
qed

text \<open>
  C5. The test of the mode in \<^verbatim>\<open>addOrPut\<close> is the wrong way round. On a handle whose
  store exists and whose transaction is active, \<^verbatim>\<open>add\<close> and \<^verbatim>\<open>put\<close> raise
  \<^verbatim>\<open>ReadOnlyError\<close> exactly when the mode is not \<^verbatim>\<open>readonly\<close>: a read-write or
  version-change transaction cannot write, and a read-only one goes on to the request.
\<close>

theorem addOrPut_ReadOnlyError_inverted:
  assumes "op_exists env = None" and "t_state t = Active"
  shows "(addOrPut h env rq st val key noOverwrite t = Inl ReadOnlyError) = (t_mode t \<noteq> Readonly)"
  using assms
  by (auto simp add: addOrPut_def assertObjectStore_def asynchronouslyExecuteRequest_def Let_def
      split: outcome.splits)

theorem addOrPut_ReadOnlyError_inverted_witness:
  "op_exists \<lparr>op_exists = None, extracted = Extraction_failure, injectable = True,
      stored = Returned (V_number (Fin 1))\<rparr> = None \<and>
   t_state (new_transaction Readwrite) = Active \<and>
   IDBObjectStore_put idle
     \<lparr>op_exists = None, extracted = Extraction_failure, injectable = True,
      stored = Returned (V_number (Fin 1))\<rparr>
     0 \<lparr>s_keyPath = None, s_keyGenerator = None\<rparr> (V_string [97]) (V_number (Fin 1))
     (new_transaction Readwrite) = Inl ReadOnlyError \<and>
   IDBObjectStore_add idle
     \<lparr>op_exists = None, extracted = Extraction_failure, injectable = True,
      stored = Returned (V_number (Fin 1))\<rparr>
     0 \<lparr>s_keyPath = None, s_keyGenerator = None\<rparr> (V_string [97]) (V_number (Fin 1))
     (new_transaction Versionchange) = Inl ReadOnlyError \<and>
   (case IDBObjectStore_put idle
           \<lparr>op_exists = None, extracted = Extraction_failure, injectable = True,
            stored = Returned (V_number (Fin 1))\<rparr>
           0 \<lparr>s_keyPath = None, s_keyGenerator = None\<rparr> (V_string [97]) (V_number (Fin 1))
           (new_transaction Readonly) of
      Inl e \<Rightarrow> False
    | Inr t \<Rightarrow> requestList t = [0] \<and> t_state t = Active)"
  using addOrPut_ReadOnlyError_inverted
    [of "\<lparr>op_exists = None, extracted = Extraction_failure, injectable = True,
          stored = Returned (V_number (Fin 1))\<rparr>"
        "new_transaction Readwrite" idle 0 "\<lparr>s_keyPath = None, s_keyGenerator = None\<rparr>"
        "V_string [97]" "V_number (Fin 1)" False]
  by (simp add: IDBObjectStore_put_def IDBObjectStore_add_def addOrPut_def assertObjectStore_def
      asynchronouslyExecuteRequest_def new_transaction_def)

section \<open>Properties of cursors\<close>

lemma condition_a_value: "condition_a s (Some (Op_value v)) recordKey = (s \<noteq> - 1)"
  by (simp add: condition_a_def cross_type_undefined)

lemma matches_value:
  "matches s cursor (Some (Op_value v)) None position = matches s cursor (Some (Op_value w)) None position"
  by (rule ext) (simp add: matches_def condition_a_value condition_b_def split: sum.splits)

lemma matches_unique_value:
  "matches_unique s cursor (Some (Op_value v)) position =
   matches_unique s cursor (Some (Op_value w)) position"
  by (rule ext) (simp add: matches_unique_def condition_a_value)

lemma select_record_value:
  "select_record cursor records (Some (Op_value v)) None position found =
   select_record cursor records (Some (Op_value w)) None position found"
  unfolding select_record_def
  by (simp only: matches_value [of _ _ v _ w] matches_unique_value [of _ _ v _ w])

lemma iterate_loop_value:
  "iterate_loop n cursor records (Some (Op_value v)) None position osp found =
   iterate_loop n cursor records (Some (Op_value w)) None position osp found"
proof (induction n arbitrary: position osp found)
  case 0
  then show ?case by simp
next
  case (Suc n)
  show ?case
    by (simp add: select_record_value [of _ _ v _ _ w] Suc.IH split: sum.splits option.splits)
qed

lemma advance_operation_ignores_count:
  "advance_operation records n this = advance_operation records m this"
  unfolding advance_operation_def iterateCursor_def
  by (simp only: iterate_loop_value [of _ _ _ "V_number (Fin (real n))" _ _ _ "V_number (Fin (real m))"])

lemma IDBCursor_advance_always_throws:
  "IDBCursor_advance h exists_op records count this t = Inl TypeError \<or>
   IDBCursor_advance h exists_op records count this t = Inl TransactionInactiveError"
  by (simp add: IDBCursor_advance_def assertCursor_def assertObjectStore_def
      effectiveObjectStore_def)

text \<open>
  C9. \<^verbatim>\<open>advance(count)\<close> does not perform \<open>count\<close> steps. On a cursor over an object
  store with the keys 1 to 4, placed on the key 1 with a value, in an active transaction,
  \<^verbatim>\<open>advance(2)\<close> throws a \<^verbatim>\<open>TypeError\<close>: \<^verbatim>\<open>assertCursor\<close> takes the position of the
  cursor for its object store. The operation that \<^verbatim>\<open>advance\<close> would hand over,
  \<^verbatim>\<open>iterateCursor(this, count)\<close>, passes the number as the key to continue to and steps
  once: it leaves the cursor on the key 2, where two steps of \<^verbatim>\<open>iterateCursor\<close> lead to
  the key 3.
\<close>

theorem advance_does_not_step_count_times:
  "IDBCursor_advance idle None
     [(Key_number (Fin 1), V_string [97]), (Key_number (Fin 2), V_string [98]),
      (Key_number (Fin 3), V_string [99]), (Key_number (Fin 4), V_string [100])]
     2
     \<lparr>c_source = Source_store, c_direction = Next, c_range = createRange None None False False,
      c_keyOnly = False, c_position = Some (Key_number (Fin 1)), c_objectStorePosition = None,
      c_key = Some (Key_number (Fin 1)), c_value = Some (V_string [97]), c_gotValue = True,
      c_request = 0\<rparr>
     (new_transaction Readonly) = Inl TypeError \<and>
   advance_operation
     [(Key_number (Fin 1), V_string [97]), (Key_number (Fin 2), V_string [98]),
      (Key_number (Fin 3), V_string [99]), (Key_number (Fin 4), V_string [100])]
     2
     \<lparr>c_source = Source_store, c_direction = Next, c_range = createRange None None False False,
      c_keyOnly = False, c_position = Some (Key_number (Fin 1)), c_objectStorePosition = None,
      c_key = Some (Key_number (Fin 1)), c_value = Some (V_string [97]), c_gotValue = False,
      c_request = 0\<rparr> =
   Inr (True,
     \<lparr>c_source = Source_store, c_direction = Next, c_range = createRange None None False False,
      c_keyOnly = False, c_position = Some (Key_number (Fin 2)), c_objectStorePosition = None,
      c_key = Some (Key_number (Fin 2)), c_value = Some (V_string [98]), c_gotValue = True,
      c_request = 0\<rparr>) \<and>
   iterateCursor
     [(Key_number (Fin 1), V_string [97]), (Key_number (Fin 2), V_string [98]),
      (Key_number (Fin 3), V_string [99]), (Key_number (Fin 4), V_string [100])]
     \<lparr>c_source = Source_store, c_direction = Next, c_range = createRange None None False False,
      c_keyOnly = False, c_position = Some (Key_number (Fin 1)), c_objectStorePosition = None,
      c_key = Some (Key_number (Fin 1)), c_value = Some (V_string [97]), c_gotValue = False,
      c_request = 0\<rparr> None None 2 =
   Inr (True,
     \<lparr>c_source = Source_store, c_direction = Next, c_range = createRange None None False False,
      c_keyOnly = False, c_position = Some (Key_number (Fin 3)), c_objectStorePosition = None,
      c_key = Some (Key_number (Fin 3)), c_value = Some (V_string [99]), c_gotValue = True,
      c_request = 0\<rparr>)"
  by (simp add: IDBCursor_advance_def new_transaction_def assertCursor_def assertObjectStore_def
      effectiveObjectStore_def advance_operation_def iterateCursor_def select_record_def matches_def
      condition_a_def condition_b_def condition_c_def keyInRange_def createRange_def cross_type_def
      numeral_2_eq_2)

end
